theory Spec2Isabelle
  imports Complex_Main
begin

section \<open>The MINRES kernel of Eigen (IterativeLinearSolvers/MINRES.h)\<close>

text \<open>
  The development embeds \<^verbatim>\<open>internal::minres\<close> and the two internal entry points of the
  \<^verbatim>\<open>MINRES\<close> class. Scalars are exact reals (the template is instantiated at a real
  \<^verbatim>\<open>Scalar\<close>, rounding is not modelled). Two things that the C++ does and that a total
  function over the reals would hide are written into the model:
  \<^item> variables that are declared without an initialiser hold an arbitrary value, which is an
    argument of the model (record \<open>uninit\<close>);
  \<^item> a division whose divisor is zero sets the flag \<open>div_by_zero\<close> of the state. The
    IEEE result (an infinity or a NaN) is not a real number, so the values computed after
    the flag is set are not meaningful; the general theorems below are about counters and
    about which variable is read where, and every concrete evaluation says whether the
    flag is set.
  The state also counts the applications of the operator (\<open>mat_calls\<close>), the calls of the
  preconditioner (\<open>solve_calls\<close>) and the executions of the loop body (\<open>body_runs\<close>).
\<close>

subsection \<open>Dense vectors\<close>

type_synonym vec = "real list"

text \<open>Modelled from the spec: Eigen's dense vector arithmetic (\<^verbatim>\<open>Matrix<Scalar,Dynamic,1>\<close>)
  is not part of MINRES.h. \<^verbatim>\<open>VectorType::Zero(N)\<close> is the vector of \<open>N\<close> zeros.\<close>
definition VectorType_Zero :: "nat \<Rightarrow> vec" where
  "VectorType_Zero k = replicate k 0"

text \<open>Modelled from the spec: Eigen's dense vector arithmetic is not part of MINRES.h.
  The componentwise difference \<^verbatim>\<open>a - b\<close>.\<close>
definition vsub :: "vec \<Rightarrow> vec \<Rightarrow> vec" where
  "vsub a b = map2 (\<lambda>y z. y - z) a b"

text \<open>Modelled from the spec: Eigen's dense vector arithmetic is not part of MINRES.h.
  The componentwise sum \<^verbatim>\<open>a + b\<close>.\<close>
definition vadd :: "vec \<Rightarrow> vec \<Rightarrow> vec" where
  "vadd a b = map2 (\<lambda>y z. y + z) a b"

text \<open>Modelled from the spec: Eigen's dense vector arithmetic is not part of MINRES.h.
  The product \<^verbatim>\<open>k * a\<close> of a scalar and a vector.\<close>
definition smul :: "real \<Rightarrow> vec \<Rightarrow> vec" where
  "smul k a = map (\<lambda>y. k * y) a"

text \<open>Modelled from the spec: Eigen's dense vector arithmetic is not part of MINRES.h.
  The quotient \<^verbatim>\<open>a / k\<close> of a vector by a scalar.\<close>
definition vdiv :: "vec \<Rightarrow> real \<Rightarrow> vec" where
  "vdiv a k = map (\<lambda>y. y / k) a"

text \<open>Modelled from the spec: Eigen's dense vector arithmetic is not part of MINRES.h.
  The inner product \<^verbatim>\<open>a.dot(b)\<close> of real vectors.\<close>
definition dot :: "vec \<Rightarrow> vec \<Rightarrow> real" where
  "dot a b = sum_list (map2 (\<lambda>y z. y * z) a b)"

text \<open>Modelled from the spec: Eigen's dense vector arithmetic is not part of MINRES.h.
  \<^verbatim>\<open>a.squaredNorm()\<close> is the sum of the squares of the components.\<close>
definition squaredNorm :: "vec \<Rightarrow> real" where
  "squaredNorm a = sum_list (map (\<lambda>y. y * y) a)"

text \<open>Modelled from the spec: Eigen's dense vector arithmetic is not part of MINRES.h.
  \<^verbatim>\<open>a.setOnes()\<close> keeps the size and sets every coefficient to one.\<close>
definition setOnes :: "vec \<Rightarrow> vec" where
  "setOnes a = map (\<lambda>y. 1) a"

text \<open>A dense symmetric matrix, given by its rows, as the operator \<^verbatim>\<open>mat * y\<close>; used for the
  concrete runs.\<close>
definition dense :: "vec list \<Rightarrow> vec \<Rightarrow> vec" where
  "dense rows y = map (\<lambda>row. dot row y) rows"

subsection \<open>Arguments, uninitialised storage and the variables of the kernel\<close>

text \<open>The read-only arguments of \<^verbatim>\<open>minres\<close>: the operator \<^verbatim>\<open>mat\<close> (as the function
  \<^verbatim>\<open>mat * y\<close>, with \<^verbatim>\<open>mat.cols()\<close>), the right-hand side and the preconditioner (as the
  function \<^verbatim>\<open>precond.solve(y)\<close>).\<close>
record minres_env =
  mat :: "vec \<Rightarrow> vec"
  mat_cols :: nat
  rhs :: vec
  precond_solve :: "vec \<Rightarrow> vec"

text \<open>What the storage of the variables declared without an initialiser holds:
  \<^verbatim>\<open>VectorType v_old(N)\<close>, \<^verbatim>\<open>w(N)\<close>, \<^verbatim>\<open>p(N)\<close>, \<^verbatim>\<open>RealScalar beta\<close>,
  \<^verbatim>\<open>RealScalar residualNorm2\<close>, and the constants declared inside the loop body before the
  body has run.\<close>
record uninit =
  u_v_old :: "nat \<Rightarrow> real"
  u_w :: "nat \<Rightarrow> real"
  u_p :: "nat \<Rightarrow> real"
  u_beta :: real
  u_residualNorm2 :: real
  u_alpha :: real
  u_r2 :: real
  u_r3 :: real
  u_r1_hat :: real
  u_r1 :: real

text \<open>\<^verbatim>\<open>VectorType y(N)\<close>: a vector of \<open>N\<close> coefficients with the content \<open>g\<close> of the storage.\<close>
definition uninit_vec :: "nat \<Rightarrow> (nat \<Rightarrow> real) \<Rightarrow> vec" where
  "uninit_vec k g = map g [0..<k]"

text \<open>Every variable of \<^verbatim>\<open>minres\<close>, under its name in the source: the in/out arguments
  \<open>x\<close>, \<open>iters\<close>, \<open>tol_error\<close>, the locals, and the four observation fields.\<close>
record minres_state =
  x :: vec
  iters :: int
  tol_error :: real
  maxIters :: int
  N :: nat
  rhsNorm2 :: real
  threshold2 :: real
  residual :: vec
  v_old :: vec
  v :: vec
  v_new :: vec
  w :: vec
  w_new :: vec
  beta :: real
  beta_new :: real
  c :: real
  c_old :: real
  s :: real
  s_old :: real
  p_oold :: vec
  p_old :: vec
  p :: vec
  norm_rMR :: real
  norm_r0 :: real
  eta :: real
  residualNorm2 :: real
  n :: int
  alpha :: real
  r2 :: real
  r3 :: real
  r1_hat :: real
  r1 :: real
  mat_calls :: nat
  solve_calls :: nat
  body_runs :: nat
  div_by_zero :: bool

subsection \<open>Initialisation (lines 41 to 86)\<close>

definition minres_init :: "minres_env \<Rightarrow> vec \<Rightarrow> int \<Rightarrow> real \<Rightarrow> uninit \<Rightarrow> minres_state" where
  "minres_init E x_in iters_in tol_in U =
    (let maxIters0 = iters_in;
         N0 = mat_cols E;
         rhsNorm2_0 = squaredNorm (rhs E);
         threshold2_0 = tol_in * tol_in * rhsNorm2_0;
         residual0 = vsub (rhs E) (mat E x_in);
         v_old0 = uninit_vec N0 (u_v_old U);
         v0 = VectorType_Zero N0;
         v_new0 = residual0;
         w0 = uninit_vec N0 (u_w U);
         w_new0 = precond_solve E v_new0;
         beta0 = u_beta U;
         beta_new0 = sqrt (dot v_new0 w_new0);
         v_new1 = vdiv v_new0 beta_new0;
         w_new1 = vdiv w_new0 beta_new0;
         p_oold0 = VectorType_Zero N0;
         p_old0 = p_oold0;
         p0 = uninit_vec N0 (u_p U)
     in \<lparr> x = x_in, iters = iters_in, tol_error = tol_in,
          maxIters = maxIters0, N = N0, rhsNorm2 = rhsNorm2_0, threshold2 = threshold2_0,
          residual = residual0,
          v_old = v_old0, v = v0, v_new = v_new1, w = w0, w_new = w_new1,
          beta = beta0, beta_new = beta_new0,
          c = 1, c_old = 1, s = 0, s_old = 0,
          p_oold = p_oold0, p_old = p_old0, p = p0,
          norm_rMR = beta0, norm_r0 = beta0,
          eta = 1,
          residualNorm2 = u_residualNorm2 U,
          n = 0,
          alpha = u_alpha U, r2 = u_r2 U, r3 = u_r3 U, r1_hat = u_r1_hat U, r1 = u_r1 U,
          mat_calls = 1, solve_calls = 1, body_runs = 0,
          div_by_zero = (beta_new0 = 0) \<rparr>)"

subsection \<open>The loop body (lines 100 to 157)\<close>

text \<open>Each source statement is one update of the state, in the source's order; a statement
  that applies the operator or the preconditioner also bumps its counter, and a division
  records a zero divisor.\<close>

text \<open>Lines 100 to 110, \<^verbatim>\<open>// Preconditioned Lanczos\<close>.\<close>
definition preconditioned_Lanczos :: "minres_env \<Rightarrow> minres_state \<Rightarrow> minres_state" where
  "preconditioned_Lanczos E st0 =
    (let st1 = st0\<lparr>beta := beta_new st0\<rparr>;
         st2 = st1\<lparr>v_old := v st1\<rparr>;
         st3 = st2\<lparr>v := v_new st2\<rparr>;
         st4 = st3\<lparr>w := w_new st3\<rparr>;
         st5 = st4\<lparr>v_new := vsub (mat E (w st4)) (smul (beta st4) (v_old st4)),
                   mat_calls := mat_calls st4 + 1\<rparr>;
         st6 = st5\<lparr>alpha := dot (v_new st5) (w st5)\<rparr>;
         st7 = st6\<lparr>v_new := vsub (v_new st6) (smul (alpha st6) (v st6))\<rparr>;
         st8 = st7\<lparr>w_new := precond_solve E (v_new st7),
                   solve_calls := solve_calls st7 + 1\<rparr>;
         st9 = st8\<lparr>beta_new := sqrt (dot (v_new st8) (w_new st8))\<rparr>;
         st10 = st9\<lparr>v_new := vdiv (v_new st9) (beta_new st9),
                    div_by_zero := (div_by_zero st9 \<or> beta_new st9 = 0)\<rparr>;
         st11 = st10\<lparr>w_new := vdiv (w_new st10) (beta_new st10),
                     div_by_zero := (div_by_zero st10 \<or> beta_new st10 = 0)\<rparr>
     in st11)"

text \<open>Lines 137 and 138, \<^verbatim>\<open>// Apply QR\<close>.\<close>
definition apply_QR :: "minres_state \<Rightarrow> minres_state" where
  "apply_QR st0 =
    (let st1 = st0\<lparr>r2 := s st0 * alpha st0 + c st0 * c_old st0 * beta st0\<rparr>;
         st2 = st1\<lparr>r3 := s_old st1 * beta st1\<rparr>
     in st2)"

text \<open>Lines 141 to 146, \<^verbatim>\<open>// Compute new Givens rotation\<close>. \<^verbatim>\<open>std::pow(y,2)\<close> is the
  square and \<^verbatim>\<open>std::pow(y,0.5)\<close>, of a sum of two squares, the square root.\<close>
definition new_Givens_rotation :: "minres_state \<Rightarrow> minres_state" where
  "new_Givens_rotation st0 =
    (let st1 = st0\<lparr>r1_hat := c st0 * alpha st0 - c_old st0 * s st0 * beta st0\<rparr>;
         st2 = st1\<lparr>r1 := sqrt ((r1_hat st1)\<^sup>2 + (beta_new st1)\<^sup>2)\<rparr>;
         st3 = st2\<lparr>c_old := c st2\<rparr>;
         st4 = st3\<lparr>s_old := s st3\<rparr>;
         st5 = st4\<lparr>c := r1_hat st4 / r1 st4,
                   div_by_zero := (div_by_zero st4 \<or> r1 st4 = 0)\<rparr>;
         st6 = st5\<lparr>s := beta st5 / r1 st5,
                   div_by_zero := (div_by_zero st5 \<or> r1 st5 = 0)\<rparr>
     in st6)"

text \<open>Lines 150 to 152, \<^verbatim>\<open>// update w\<close>.\<close>
definition update_w :: "minres_state \<Rightarrow> minres_state" where
  "update_w st0 =
    (let st1 = st0\<lparr>p_oold := p_old st0\<rparr>;
         st2 = st1\<lparr>p_old := p st1\<rparr>;
         st3 = st2\<lparr>p := vdiv (vsub (vsub (w st2) (smul (r2 st2) (p_old st2)))
                                   (smul (r3 st2) (p_oold st2))) (r1 st2),
                   div_by_zero := (div_by_zero st2 \<or> r1 st2 = 0)\<rparr>
     in st3)"

text \<open>Lines 154 to 157, \<^verbatim>\<open>// update x\<close> and the recomputed residual.\<close>
definition update_x :: "minres_env \<Rightarrow> minres_state \<Rightarrow> minres_state" where
  "update_x E st0 =
    (let st1 = st0\<lparr>x := vadd (x st0) (smul (c st0 * eta st0) (p st0))\<rparr>;
         st2 = st1\<lparr>norm_rMR := norm_rMR st1 * \<bar>s st1\<bar>\<rparr>;
         st3 = st2\<lparr>residualNorm2 := squaredNorm (vsub (mat E (x st2)) (rhs E)),
                   mat_calls := mat_calls st2 + 1\<rparr>
     in st3)"

definition loop_body :: "minres_env \<Rightarrow> minres_state \<Rightarrow> minres_state" where
  "loop_body E st =
     update_x E (update_w (new_Givens_rotation (apply_QR
       (preconditioned_Lanczos E (st\<lparr>body_runs := body_runs st + 1\<rparr>)))))"

text \<open>Lines 163 and 164, reached when the \<^verbatim>\<open>break\<close> is not taken.\<close>
definition loop_tail :: "minres_state \<Rightarrow> minres_state" where
  "loop_tail st0 =
    (let st1 = st0\<lparr>eta := - s st0 * eta st0\<rparr>;
         st2 = st1\<lparr>n := n st1 + 1\<rparr>
     in st2)"

subsection \<open>The loop (lines 87 to 165) and the return (lines 166 and 167)\<close>

function minres_while :: "minres_env \<Rightarrow> minres_state \<Rightarrow> minres_state" where
  "minres_while E st =
    (if n st < maxIters st then
       (let st' = loop_body E st in
        if residualNorm2 st' < threshold2 st' then st'
        else minres_while E (loop_tail st'))
     else st)"
  by pat_completeness auto
termination
  by (relation "measure (\<lambda>(E, st). nat (maxIters st - n st))")
     (auto simp: loop_tail_def loop_body_def update_x_def update_w_def new_Givens_rotation_def
        apply_QR_def preconditioned_Lanczos_def Let_def)

declare minres_while.simps [simp del]

definition minres_return :: "minres_state \<Rightarrow> minres_state" where
  "minres_return st0 =
    (let st1 = st0\<lparr>tol_error := sqrt (residualNorm2 st0 / rhsNorm2 st0),
                   div_by_zero := (div_by_zero st0 \<or> rhsNorm2 st0 = 0)\<rparr>;
         st2 = st1\<lparr>iters := n st1\<rparr>
     in st2)"

text \<open>\<^verbatim>\<open>minres(mat, rhs, x, precond, iters, tol_error)\<close>: the result is the final state, whose
  fields \<open>x\<close>, \<open>iters\<close> and \<open>tol_error\<close> are the three outputs.\<close>
definition minres :: "minres_env \<Rightarrow> vec \<Rightarrow> int \<Rightarrow> real \<Rightarrow> uninit \<Rightarrow> minres_state" where
  "minres E x_in iters_in tol_in U =
     minres_return (minres_while E (minres_init E x_in iters_in tol_in U))"

subsection \<open>The class \<^verbatim>\<open>MINRES\<close>: \<^verbatim>\<open>_solveWithGuess\<close> and \<^verbatim>\<open>_solve\<close> (lines 293 to 318)\<close>

text \<open>Modelled from the spec: the enumeration \<^verbatim>\<open>ComputationInfo\<close> is declared outside
  MINRES.h; the wrapper reports success or no convergence.\<close>
datatype ComputationInfo = Success | NoConvergence

text \<open>The members of \<^verbatim>\<open>IterativeSolverBase\<close> that the two functions use. The base class is
  not part of MINRES.h, so the operator \<^verbatim>\<open>mp_matrix->selfadjointView<UpLo>()\<close> (with its
  number of columns) and the value of \<^verbatim>\<open>Base::maxIterations()\<close> are fields.\<close>
record MINRES_solver =
  mp_matrix :: "vec \<Rightarrow> vec"
  mp_matrix_cols :: nat
  m_preconditioner :: "vec \<Rightarrow> vec"
  maxIterations :: int
  m_tolerance :: real
  m_iterations :: int
  m_error :: real
  m_info :: ComputationInfo
  m_isInitialized :: bool

text \<open>The read-only arguments that \<^verbatim>\<open>_solveWithGuess\<close> passes to the kernel for the column
  \<open>bj\<close> of \<open>b\<close> (line 304).\<close>
definition kernel_args :: "MINRES_solver \<Rightarrow> vec \<Rightarrow> minres_env" where
  "kernel_args S bj =
     \<lparr> mat = mp_matrix S, mat_cols = mp_matrix_cols S, rhs = bj,
       precond_solve = m_preconditioner S \<rparr>"

text \<open>The \<^verbatim>\<open>for\<close> loop of \<^verbatim>\<open>_solveWithGuess\<close> over the columns \<open>js\<close> of \<open>b\<close>. The matrices \<open>b\<close>
  and \<open>x\<close> are lists of columns; \<open>U j\<close> is the uninitialised storage of the \<open>j\<close>-th kernel
  call. Taking a column of \<open>x\<close> that does not exist fails Eigen's index assertion: \<open>None\<close>.\<close>
fun column_loop ::
  "vec list \<Rightarrow> (nat \<Rightarrow> uninit) \<Rightarrow> nat list \<Rightarrow> MINRES_solver \<times> vec list
     \<Rightarrow> (MINRES_solver \<times> vec list) option" where
  "column_loop b U [] (S, xm) = Some (S, xm)"
| "column_loop b U (j # js) (S, xm) =
    (if j < length xm then
       (let S1 = S\<lparr>m_iterations := maxIterations S\<rparr>;
            S2 = S1\<lparr>m_error := m_tolerance S1\<rparr>;
            r = minres (kernel_args S2 (b ! j)) (xm ! j) (m_iterations S2) (m_error S2) (U j);
            S3 = S2\<lparr>m_iterations := iters r, m_error := tol_error r\<rparr>
        in column_loop b U js (S3, xm[j := x r]))
     else None)"

definition MINRES_solveWithGuess ::
  "MINRES_solver \<Rightarrow> vec list \<Rightarrow> vec list \<Rightarrow> (nat \<Rightarrow> uninit)
     \<Rightarrow> (MINRES_solver \<times> vec list) option" where
  "MINRES_solveWithGuess S b xm U =
    (let S1 = S\<lparr>m_iterations := maxIterations S\<rparr>;
         S2 = S1\<lparr>m_error := m_tolerance S1\<rparr>
     in case column_loop b U [0..<length b] (S2, xm) of
          None \<Rightarrow> None
        | Some (S3, xm') \<Rightarrow>
            (let S4 = S3\<lparr>m_isInitialized := True\<rparr>;
                 S5 = S4\<lparr>m_info := (if m_error S4 \<le> m_tolerance S4 then Success
                                     else NoConvergence)\<rparr>
             in Some (S5, xm')))"

definition MINRES_solve ::
  "MINRES_solver \<Rightarrow> vec list \<Rightarrow> vec list \<Rightarrow> (nat \<Rightarrow> uninit)
     \<Rightarrow> (MINRES_solver \<times> vec list) option" where
  "MINRES_solve S b xm U = MINRES_solveWithGuess S b (map setOnes xm) U"

subsection \<open>Concrete inputs\<close>

text \<open>The symmetric indefinite operator \<open>[[3, 4], [4, -3]]\<close> with the identity
  preconditioner, once with right-hand side \<open>(1, 0)\<close> and once with the zero right-hand
  side; storage that happens to hold zeros.\<close>
definition E_ex :: minres_env where
  "E_ex = \<lparr> mat = dense [[3, 4], [4, -3]], mat_cols = 2, rhs = [1, 0],
            precond_solve = (\<lambda>y. y) \<rparr>"

definition E_zero_rhs :: minres_env where
  "E_zero_rhs = \<lparr> mat = dense [[3, 4], [4, -3]], mat_cols = 2, rhs = [0, 0],
                  precond_solve = (\<lambda>y. y) \<rparr>"

definition U_zero :: uninit where
  "U_zero = \<lparr> u_v_old = (\<lambda>i. 0), u_w = (\<lambda>i. 0), u_p = (\<lambda>i. 0), u_beta = 0,
              u_residualNorm2 = 0, u_alpha = 0, u_r2 = 0, u_r3 = 0, u_r1_hat = 0,
              u_r1 = 0 \<rparr>"

definition S_ex :: MINRES_solver where
  "S_ex = \<lparr> mp_matrix = dense [[3, 4], [4, -3]], mp_matrix_cols = 2,
            m_preconditioner = (\<lambda>y. y), maxIterations = 1, m_tolerance = 0,
            m_iterations = 0, m_error = 0, m_info = Success, m_isInitialized = True \<rparr>"

section \<open>Facts about the model\<close>

lemmas vec_defs = VectorType_Zero_def vsub_def vadd_def smul_def vdiv_def dot_def
  squaredNorm_def setOnes_def dense_def uninit_vec_def

lemmas body_defs = loop_body_def update_x_def update_w_def new_Givens_rotation_def
  apply_QR_def preconditioned_Lanczos_def Let_def

subsection \<open>What one execution of the loop body changes\<close>

lemma loop_body_n: "n (loop_body E st) = n st"
  by (simp add: body_defs)

lemma loop_body_maxIters: "maxIters (loop_body E st) = maxIters st"
  by (simp add: body_defs)

lemma loop_body_threshold2: "threshold2 (loop_body E st) = threshold2 st"
  by (simp add: body_defs)

lemma loop_body_rhsNorm2: "rhsNorm2 (loop_body E st) = rhsNorm2 st"
  by (simp add: body_defs)

lemma loop_body_body_runs: "body_runs (loop_body E st) = Suc (body_runs st)"
  by (simp add: body_defs)

lemma loop_body_mat_calls: "mat_calls (loop_body E st) = mat_calls st + 2"
  by (simp add: body_defs)

lemma loop_body_solve_calls: "solve_calls (loop_body E st) = solve_calls st + 1"
  by (simp add: body_defs)

lemma loop_body_residualNorm2:
  "residualNorm2 (loop_body E st) = squaredNorm (vsub (mat E (x (loop_body E st))) (rhs E))"
  by (simp add: body_defs)


lemma loop_body_sine:
  "s (loop_body E st) = beta_new st / r1 (loop_body E st)"
  by (simp add: body_defs)

lemma loop_body_cosine:
  "c (loop_body E st) = r1_hat (loop_body E st) / r1 (loop_body E st)"
  by (simp add: body_defs)

lemma loop_body_r1:
  "r1 (loop_body E st) = sqrt ((r1_hat (loop_body E st))\<^sup>2 + (beta_new (loop_body E st))\<^sup>2)"
  by (simp add: body_defs)

lemma loop_body_beta: "beta (loop_body E st) = beta_new st"
  by (simp add: body_defs)



lemma loop_tail_fields:
  "n (loop_tail st) = n st + 1" "maxIters (loop_tail st) = maxIters st"
  "threshold2 (loop_tail st) = threshold2 st" "body_runs (loop_tail st) = body_runs st"
  "mat_calls (loop_tail st) = mat_calls st" "solve_calls (loop_tail st) = solve_calls st"
  "x (loop_tail st) = x st" "residualNorm2 (loop_tail st) = residualNorm2 st"
  "rhsNorm2 (loop_tail st) = rhsNorm2 st"
  by (simp_all add: loop_tail_def Let_def)

lemma squaredNorm_nonneg: "0 \<le> squaredNorm a"
  unfolding squaredNorm_def by (induction a) simp_all

lemma squaredNorm_Zero: "squaredNorm (VectorType_Zero k) = 0"
  unfolding squaredNorm_def VectorType_Zero_def by (induction k) simp_all

subsection \<open>The loop\<close>

lemma minres_while_unfold:
  "n st < maxIters st \<Longrightarrow>
     minres_while E st =
       (if residualNorm2 (loop_body E st) < threshold2 st then loop_body E st
        else minres_while E (loop_tail (loop_body E st)))"
  by (subst minres_while.simps) (simp add: Let_def loop_body_threshold2)

lemma minres_while_done: "\<not> n st < maxIters st \<Longrightarrow> minres_while E st = st"
  by (subst minres_while.simps) simp


lemma minres_while_calls:
  "mat_calls (minres_while E st) + 2 * body_runs st = mat_calls st + 2 * body_runs (minres_while E st) \<and>
   solve_calls (minres_while E st) + body_runs st = solve_calls st + body_runs (minres_while E st)"
proof (induction E st rule: minres_while.induct)
  case (1 E st)
  show ?case
  proof (cases "n st < maxIters st")
    case False
    then show ?thesis by (simp add: minres_while_done)
  next
    case True
    show ?thesis
    proof (cases "residualNorm2 (loop_body E st) < threshold2 st")
      case brk: True
      then show ?thesis using True
        by (simp add: minres_while_unfold loop_body_mat_calls loop_body_solve_calls
            loop_body_body_runs)
    next
      case cont: False
      from "1.IH"[OF True refl] cont
      show ?thesis using True
        by (simp add: minres_while_unfold loop_tail_fields loop_body_mat_calls
            loop_body_solve_calls loop_body_body_runs loop_body_threshold2)
    qed
  qed
qed

lemma minres_while_zero_threshold:
  "threshold2 st = 0 \<Longrightarrow> n st \<le> maxIters st \<Longrightarrow>
     n (minres_while E st) = maxIters st \<and>
     int (body_runs (minres_while E st)) = int (body_runs st) + (maxIters st - n st)"
proof (induction E st rule: minres_while.induct)
  case (1 E st)
  show ?case
  proof (cases "n st < maxIters st")
    case False
    then show ?thesis using "1.prems" by (simp add: minres_while_done)
  next
    case True
    have cont: "\<not> residualNorm2 (loop_body E st) < threshold2 st"
      using "1.prems"(1) by (simp add: loop_body_residualNorm2 squaredNorm_nonneg not_less)
    have cont': "\<not> residualNorm2 (loop_body E st) < threshold2 (loop_body E st)"
      using cont by (simp add: loop_body_threshold2)
    have t: "threshold2 (loop_tail (loop_body E st)) = 0"
      using "1.prems"(1) by (simp add: loop_tail_fields loop_body_threshold2)
    have b: "n (loop_tail (loop_body E st)) \<le> maxIters (loop_tail (loop_body E st))"
      using True by (simp add: loop_tail_fields loop_body_n loop_body_maxIters)
    from "1.IH"[OF True refl cont' t b] cont
    show ?thesis using True
      by (simp add: minres_while_unfold loop_tail_fields loop_body_n loop_body_maxIters
          loop_body_body_runs)
  qed
qed

lemma minres_while_residual:
  "n st < maxIters st \<or> residualNorm2 st = squaredNorm (vsub (mat E (x st)) (rhs E)) \<Longrightarrow>
     residualNorm2 (minres_while E st) =
       squaredNorm (vsub (mat E (x (minres_while E st))) (rhs E))"
proof (induction E st rule: minres_while.induct)
  case (1 E st)
  show ?case
  proof (cases "n st < maxIters st")
    case False
    then show ?thesis using "1.prems" by (simp add: minres_while_done)
  next
    case True
    show ?thesis
    proof (cases "residualNorm2 (loop_body E st) < threshold2 st")
      case brk: True
      then show ?thesis using True
        by (simp add: minres_while_unfold) (rule loop_body_residualNorm2)
    next
      case cont: False
      have r: "residualNorm2 (loop_tail (loop_body E st)) =
          squaredNorm (vsub (mat E (x (loop_tail (loop_body E st)))) (rhs E))"
        by (simp add: loop_tail_fields) (rule loop_body_residualNorm2)
      from "1.IH"[OF True refl _ disjI2[OF r]] cont
      show ?thesis using True
        by (simp add: minres_while_unfold loop_body_threshold2)
    qed
  qed
qed





subsection \<open>The whole kernel\<close>

lemma minres_return_fields:
  "iters (minres_return st) = n st" "n (minres_return st) = n st"
  "x (minres_return st) = x st" "body_runs (minres_return st) = body_runs st"
  "mat_calls (minres_return st) = mat_calls st" "solve_calls (minres_return st) = solve_calls st"
  "tol_error (minres_return st) = sqrt (residualNorm2 st / rhsNorm2 st)"
  "div_by_zero (minres_return st) = (div_by_zero st \<or> rhsNorm2 st = 0)"
  "c (minres_return st) = c st" "s (minres_return st) = s st"
  by (simp_all add: minres_return_def Let_def)

lemma minres_init_fields:
  "n (minres_init E x_in k tol U) = 0" "maxIters (minres_init E x_in k tol U) = k"
  "body_runs (minres_init E x_in k tol U) = 0"
  "mat_calls (minres_init E x_in k tol U) = 1" "solve_calls (minres_init E x_in k tol U) = 1"
  "x (minres_init E x_in k tol U) = x_in"
  "rhsNorm2 (minres_init E x_in k tol U) = squaredNorm (rhs E)"
  "threshold2 (minres_init E x_in k tol U) = tol * tol * squaredNorm (rhs E)"
  "residualNorm2 (minres_init E x_in k tol U) = u_residualNorm2 U"
  "p (minres_init E x_in k tol U) = uninit_vec (mat_cols E) (u_p U)"
  "p_old (minres_init E x_in k tol U) = VectorType_Zero (mat_cols E)"
  "p_oold (minres_init E x_in k tol U) = VectorType_Zero (mat_cols E)"
  "c (minres_init E x_in k tol U) = 1" "c_old (minres_init E x_in k tol U) = 1"
  "s (minres_init E x_in k tol U) = 0" "s_old (minres_init E x_in k tol U) = 0"
  "eta (minres_init E x_in k tol U) = 1"
  by (simp_all add: minres_init_def Let_def)

lemma minres_while_rhsNorm2: "rhsNorm2 (minres_while E st) = rhsNorm2 st"
proof (induction E st rule: minres_while.induct)
  case (1 E st)
  show ?case
  proof (cases "n st < maxIters st")
    case False
    then show ?thesis by (simp add: minres_while_done)
  next
    case True
    show ?thesis
    proof (cases "residualNorm2 (loop_body E st) < threshold2 st")
      case brk: True
      then show ?thesis using True by (simp add: minres_while_unfold loop_body_rhsNorm2)
    next
      case cont: False
      from "1.IH"[OF True refl] cont show ?thesis using True
        by (simp add: minres_while_unfold loop_tail_fields loop_body_rhsNorm2
            loop_body_threshold2)
    qed
  qed
qed

lemma minres_error_after_an_iteration:
  "0 < k \<Longrightarrow>
     tol_error (minres E x_in k tol U) =
       sqrt (squaredNorm (vsub (mat E (x (minres E x_in k tol U))) (rhs E)) /
             squaredNorm (rhs E))"
  using minres_while_residual[of "minres_init E x_in k tol U" E]
  by (simp add: minres_def minres_return_fields minres_init_fields minres_while_rhsNorm2)

subsection \<open>Two concrete runs\<close>

lemma upt_2: "[0..<2] = [0, Suc 0]"
  by (simp add: upt_rec)

lemma replicate_2: "replicate 2 y = [y, y]"
  by (simp add: numeral_2_eq_2)

lemma sqrt_16_25: "sqrt (16 / 25) = 4 / 5"
  by (simp add: real_sqrt_divide)

lemmas run_defs = minres_def minres_return_def loop_tail_def minres_init_def vec_defs
  body_defs upt_2 replicate_2 sqrt_16_25

lemma init_ex:
  "minres_init E_ex [0, 0] k tol U_zero =
     \<lparr>x = [0, 0], iters = k, tol_error = tol, maxIters = k, N = 2,
      rhsNorm2 = 1, threshold2 = tol * tol, residual = [1, 0], v_old = [0, 0],
      v = [0, 0], v_new = [1, 0], w = [0, 0], w_new = [1, 0], beta = 0,
      beta_new = 1, c = 1, c_old = 1, s = 0, s_old = 0, p_oold = [0, 0],
      p_old = [0, 0], p = [0, 0], norm_rMR = 0, norm_r0 = 0, eta = 1,
      residualNorm2 = 0, n = 0, alpha = 0, r2 = 0, r3 = 0, r1_hat = 0,
      r1 = 0, mat_calls = 1, solve_calls = 1, body_runs = 0,
      div_by_zero = False\<rparr>"
  by (simp add: run_defs E_ex_def U_zero_def)

lemma body_ex:
  "loop_body E_ex (minres_init E_ex [0, 0] k tol U_zero) =
     \<lparr>x = [3 / 25, 0], iters = k, tol_error = tol, maxIters = k, N = 2,
      rhsNorm2 = 1, threshold2 = tol * tol, residual = [1, 0], v_old = [0, 0],
      v = [1, 0], v_new = [0, 1], w = [1, 0], w_new = [0, 1], beta = 1,
      beta_new = 4, c = 3 / 5, c_old = 1, s = 1 / 5, s_old = 0,
      p_oold = [0, 0], p_old = [0, 0], p = [1 / 5, 0], norm_rMR = 0,
      norm_r0 = 0, eta = 1, residualNorm2 = 16 / 25, n = 0, alpha = 3,
      r2 = 1, r3 = 0, r1_hat = 3, r1 = 5, mat_calls = 3,
      solve_calls = 2, body_runs = 1, div_by_zero = False\<rparr>"
  unfolding init_ex by (simp add: vec_defs body_defs E_ex_def)

lemma run_ex:
  "minres E_ex [0, 0] 1 0 U_zero =
     \<lparr>x = [3 / 25, 0], iters = 1, tol_error = 4 / 5, maxIters = 1,
      N = 2, rhsNorm2 = 1, threshold2 = 0, residual = [1, 0],
      v_old = [0, 0], v = [1, 0], v_new = [0, 1], w = [1, 0],
      w_new = [0, 1], beta = 1, beta_new = 4, c = 3 / 5, c_old = 1,
      s = 1 / 5, s_old = 0, p_oold = [0, 0], p_old = [0, 0],
      p = [1 / 5, 0], norm_rMR = 0, norm_r0 = 0, eta = - (1 / 5),
      residualNorm2 = 16 / 25, n = 1, alpha = 3, r2 = 1, r3 = 0,
      r1_hat = 3, r1 = 5, mat_calls = 3,
      solve_calls = 2, body_runs = 1, div_by_zero = False\<rparr>"
proof -
  have "minres_while E_ex (minres_init E_ex [0, 0] 1 0 U_zero) =
          loop_tail (loop_body E_ex (minres_init E_ex [0, 0] 1 0 U_zero))"
    by (subst minres_while.simps, subst minres_while.simps)
       (simp add: body_ex, simp add: init_ex loop_tail_def Let_def)
  then show ?thesis
    by (simp add: minres_def body_ex loop_tail_def minres_return_def Let_def sqrt_16_25)
qed


lemma run_zero_rhs:
  "minres E_zero_rhs [1, 0] 1 (1 / 10) U_zero =
     \<lparr>x = [116 / 125, - (12 / 125)], iters = 1, tol_error = 0, maxIters = 1,
      N = 2, rhsNorm2 = 0, threshold2 = 0, residual = [- 3, - 4],
      v_old = [0, 0], v = [- (3 / 5), - (4 / 5)],
      v_new = [- (4 / 5), 3 / 5], w = [- (3 / 5), - (4 / 5)],
      w_new = [- (4 / 5), 3 / 5], beta = 5, beta_new = 4, c = 3 / 5,
      c_old = 1, s = 1, s_old = 0, p_oold = [0, 0], p_old = [0, 0],
      p = [- (3 / 25), - (4 / 25)], norm_rMR = 0, norm_r0 = 0, eta = - 1,
      residualNorm2 = 544 / 25, n = 1, alpha = 3, r2 = 5, r3 = 0,
      r1_hat = 3, r1 = 5, mat_calls = 3,
      solve_calls = 2, body_runs = 1, div_by_zero = True\<rparr>"
  by (simp add: run_defs minres_while.simps E_zero_rhs_def U_zero_def)

lemma run_ex_p_ones:
  "x (minres E_ex [0, 0] 1 0 (U_zero\<lparr>u_p := (\<lambda>i. 1)\<rparr>)) = [0, - (3 / 25)]"
  by (simp add: run_defs minres_while.simps E_ex_def U_zero_def)

subsection \<open>The column loop of the wrapper\<close>

lemma setOnes_replicate: "setOnes a = replicate (length a) 1"
  by (simp add: setOnes_def map_replicate_const)

lemma column_loop_columns:
  assumes "distinct js" and "\<forall>j\<in>set js. j < length xm"
  shows "\<exists>S' xm'. column_loop b U js (S, xm) = Some (S', xm') \<and> length xm' = length xm \<and>
           (\<forall>j<length xm. xm' ! j =
              (if j \<in> set js
               then x (minres (kernel_args S (b ! j)) (xm ! j) (maxIterations S)
                         (m_tolerance S) (U j))
               else xm ! j))"
  using assms
proof (induction js arbitrary: S xm)
  case Nil
  then show ?case by simp
next
  case (Cons j js)
  define r where "r = minres (kernel_args S (b ! j)) (xm ! j) (maxIterations S) (m_tolerance S) (U j)"
  define S3 where "S3 = S\<lparr>m_iterations := iters r, m_error := tol_error r\<rparr>"
  have j: "j < length xm" and nj: "j \<notin> set js" and d: "distinct js"
    using Cons.prems by simp_all
  have step: "column_loop b U (j # js) (S, xm) = column_loop b U js (S3, xm[j := x r])"
    using j by (simp add: Let_def r_def S3_def kernel_args_def)
  have "\<forall>i\<in>set js. i < length (xm[j := x r])"
    using Cons.prems by simp
  from Cons.IH[OF d this, of S3]
  obtain S' xm' where res: "column_loop b U js (S3, xm[j := x r]) = Some (S', xm')"
    and len: "length xm' = length xm"
    and cols: "\<forall>i<length xm. xm' ! i =
              (if i \<in> set js
               then x (minres (kernel_args S3 (b ! i)) (xm[j := x r] ! i) (maxIterations S3)
                         (m_tolerance S3) (U i))
               else xm[j := x r] ! i)"
    by auto
  have k: "kernel_args S3 bj = kernel_args S bj" for bj
    by (simp add: S3_def kernel_args_def)
  have m: "maxIterations S3 = maxIterations S" "m_tolerance S3 = m_tolerance S"
    by (simp_all add: S3_def)
  have "\<forall>i<length xm. xm' ! i =
              (if i \<in> set (j # js)
               then x (minres (kernel_args S (b ! i)) (xm ! i) (maxIterations S)
                         (m_tolerance S) (U i))
               else xm ! i)"
  proof (intro allI impI)
    fix i assume i: "i < length xm"
    show "xm' ! i =
              (if i \<in> set (j # js)
               then x (minres (kernel_args S (b ! i)) (xm ! i) (maxIterations S)
                         (m_tolerance S) (U i))
               else xm ! i)"
    proof (cases "i = j")
      case True
      then show ?thesis using cols i nj j by (simp add: r_def)
    next
      case False
      then show ?thesis using cols i by (simp add: k m)
    qed
  qed
  with step res len show ?case by simp
qed

section \<open>The claims\<close>

text \<open>C1. The claim: in every iteration the new rotation is \<open>c = r1_hat / r1\<close> and
  \<open>s = beta_new / r1\<close>. Line 146 divides \<open>beta\<close>, the coefficient of the previous Lanczos
  step, and not \<open>beta_new\<close>: in the first iteration for the operator \<open>[[3, 4], [4, -3]]\<close>,
  right-hand side \<open>(1, 0)\<close> and guess \<open>(0, 0)\<close> the cosine is \<open>r1_hat / r1 = 3 / 5\<close>, the
  sine is \<open>beta / r1 = 1 / 5\<close>, and \<open>beta_new / r1\<close> is \<open>4 / 5\<close>. In general
  (\<open>loop_body_sine\<close>) the new sine is the \<open>beta_new\<close> of the state before the body, divided
  by the new \<open>r1\<close>.\<close>
theorem sine_divides_previous_beta_example:
  "\<not> div_by_zero (loop_body E_ex (minres_init E_ex [0, 0] 1 0 U_zero)) \<and>
   beta (loop_body E_ex (minres_init E_ex [0, 0] 1 0 U_zero)) = 1 \<and>
   beta_new (loop_body E_ex (minres_init E_ex [0, 0] 1 0 U_zero)) = 4 \<and>
   r1_hat (loop_body E_ex (minres_init E_ex [0, 0] 1 0 U_zero)) = 3 \<and>
   r1 (loop_body E_ex (minres_init E_ex [0, 0] 1 0 U_zero)) = 5 \<and>
   c (loop_body E_ex (minres_init E_ex [0, 0] 1 0 U_zero)) = 3 / 5 \<and>
   s (loop_body E_ex (minres_init E_ex [0, 0] 1 0 U_zero)) = 1 / 5 \<and>
   s (loop_body E_ex (minres_init E_ex [0, 0] 1 0 U_zero)) \<noteq>
     beta_new (loop_body E_ex (minres_init E_ex [0, 0] 1 0 U_zero)) /
     r1 (loop_body E_ex (minres_init E_ex [0, 0] 1 0 U_zero))"
  by (simp add: body_ex)

text \<open>C2. The claim: after the new rotation is computed, \<open>c\<^sup>2 + s\<^sup>2 = 1\<close>. On the run of one
  iteration from the same input no division by zero occurs and the kernel ends with
  \<open>c = 3 / 5\<close> and \<open>s = 1 / 5\<close>, so \<open>c\<^sup>2 + s\<^sup>2 = 2 / 5\<close>.\<close>
theorem rotation_not_normalised_example:
  "\<not> div_by_zero (minres E_ex [0, 0] 1 0 U_zero) \<and>
   (c (minres E_ex [0, 0] 1 0 U_zero))\<^sup>2 + (s (minres E_ex [0, 0] 1 0 U_zero))\<^sup>2 = 2 / 5 \<and>
   (c (minres E_ex [0, 0] 1 0 U_zero))\<^sup>2 + (s (minres E_ex [0, 0] 1 0 U_zero))\<^sup>2 \<noteq> 1"
  by (simp add: run_ex power2_eq_square)

text \<open>C3, as stated: for a zero right-hand side the kernel returns the initial guess at
  once, with iteration count zero and error zero, and never divides by zero. It fails for
  the operator \<open>[[3, 4], [4, -3]]\<close>, \<open>b = (0, 0)\<close>, guess \<open>(1, 0)\<close>, tolerance \<open>1 / 10\<close> and
  bound 1: the body runs, \<open>x\<close> changes, the count is 1 and the final quotient divides by
  \<open>\<parallel>b\<parallel>\<^sup>2 = 0\<close>.\<close>
theorem zero_rhs_counterexample:
  "iters (minres E_zero_rhs [1, 0] 1 (1 / 10) U_zero) = 1 \<and>
   body_runs (minres E_zero_rhs [1, 0] 1 (1 / 10) U_zero) = 1 \<and>
   x (minres E_zero_rhs [1, 0] 1 (1 / 10) U_zero) \<noteq> [1, 0] \<and>
   div_by_zero (minres E_zero_rhs [1, 0] 1 (1 / 10) U_zero)"
  by (simp add: run_zero_rhs)

text \<open>C3, amended: the kernel has no special case for a zero right-hand side. The threshold
  \<open>tol\<^sup>2 \<parallel>b\<parallel>\<^sup>2\<close> is then 0, the strict test \<open>residualNorm2 < 0\<close> never holds, so for a bound
  \<open>k \<ge> 0\<close> the body runs exactly \<open>k\<close> times, the returned count is \<open>k\<close>, and the returned
  error is computed by a division by \<open>\<parallel>b\<parallel>\<^sup>2 = 0\<close>.\<close>
theorem zero_rhs_runs_whole_budget:
  assumes "rhs E = VectorType_Zero m" and "0 \<le> k"
  shows "iters (minres E x_in k tol U) = k \<and>
         body_runs (minres E x_in k tol U) = nat k \<and>
         div_by_zero (minres E x_in k tol U)"
proof -
  let ?st = "minres_init E x_in k tol U"
  have t: "threshold2 ?st = 0"
    by (simp add: minres_init_fields assms(1) squaredNorm_Zero)
  have b: "n ?st \<le> maxIters ?st"
    using assms(2) by (simp add: minres_init_fields)
  from minres_while_zero_threshold[OF t b, of E]
  have "n (minres_while E ?st) = k" and "int (body_runs (minres_while E ?st)) = k"
    by (simp_all add: minres_init_fields)
  moreover have "rhsNorm2 (minres_while E ?st) = 0"
    by (simp add: minres_while_rhsNorm2 minres_init_fields assms(1) squaredNorm_Zero)
  ultimately show ?thesis
    by (simp add: minres_def minres_return_fields)
qed

theorem zero_rhs_runs_whole_budget_witness:
  "rhs E_zero_rhs = VectorType_Zero 2 \<and> (0::int) \<le> 1 \<and>
   iters (minres E_zero_rhs [1, 0] 1 (1 / 10) U_zero) = 1 \<and>
   body_runs (minres E_zero_rhs [1, 0] 1 (1 / 10) U_zero) = nat 1 \<and>
   div_by_zero (minres E_zero_rhs [1, 0] 1 (1 / 10) U_zero)"
proof -
  have h1: "rhs E_zero_rhs = VectorType_Zero 2"
    by (simp add: E_zero_rhs_def VectorType_Zero_def replicate_2)
  have h2: "(0::int) \<le> 1" by simp
  show ?thesis
    using h1 h2 zero_rhs_runs_whole_budget[OF h1 h2, of "[1, 0]" "1 / 10" U_zero] by blast
qed

text \<open>C4, as stated: each iteration applies the operator exactly once and calls the
  preconditioner exactly once. It fails already in the first iteration of a run: the
  operator is applied twice (\<open>mat * w\<close> at line 104, \<open>mat * x\<close> at line 157).\<close>
theorem operator_applied_twice_counterexample:
  "mat_calls (minres_init E_ex [0, 0] 1 0 U_zero) = 1 \<and>
   mat_calls (loop_body E_ex (minres_init E_ex [0, 0] 1 0 U_zero)) = 3 \<and>
   solve_calls (minres_init E_ex [0, 0] 1 0 U_zero) = 1 \<and>
   solve_calls (loop_body E_ex (minres_init E_ex [0, 0] 1 0 U_zero)) = 2"
  by (simp add: body_ex minres_init_fields)

text \<open>C4, amended: each execution of the loop body applies the operator exactly twice (once
  in the Lanczos step and once to recompute the residual) and calls the preconditioner
  exactly once; with the one application and the one call of the initialisation, a whole
  run makes \<open>1 + 2 * body_runs\<close> applications and \<open>1 + body_runs\<close> calls.\<close>
theorem calls_per_iteration:
  "mat_calls (loop_body E st) = mat_calls st + 2 \<and>
   solve_calls (loop_body E st) = solve_calls st + 1 \<and>
   mat_calls (minres E x_in k tol U) = 1 + 2 * body_runs (minres E x_in k tol U) \<and>
   solve_calls (minres E x_in k tol U) = 1 + body_runs (minres E x_in k tol U)"
  using minres_while_calls[of E "minres_init E x_in k tol U"]
  by (simp add: loop_body_mat_calls loop_body_solve_calls minres_def minres_return_fields
      minres_init_fields)






text \<open>C7. The claim: before the first iteration \<open>p\<close>, \<open>p_old\<close> and \<open>p_oold\<close> are zero, and
  \<open>c = 1\<close>, \<open>c_old = 1\<close>, \<open>s = 0\<close>, \<open>s_old = 0\<close>, \<open>eta = 1\<close>. The scalars and \<open>p_old\<close>, \<open>p_oold\<close>
  are as claimed (\<open>minres_init_fields\<close>), but \<open>p\<close> is declared as \<^verbatim>\<open>VectorType p(N)\<close> and
  keeps what its storage held; the first iteration copies it to \<open>p_old\<close> and uses it with
  the factor \<open>r2 = beta\<close>. With storage holding ones the run of one iteration returns
  \<open>(0, -3/25)\<close>, with storage holding zeros \<open>(3/25, 0)\<close>.\<close>
theorem direction_p_uninitialised_example:
  "p (minres_init E_ex [0, 0] 1 0 (U_zero\<lparr>u_p := (\<lambda>i. 1)\<rparr>)) = [1, 1] \<and>
   p_old (minres_init E_ex [0, 0] 1 0 (U_zero\<lparr>u_p := (\<lambda>i. 1)\<rparr>)) = [0, 0] \<and>
   p_oold (minres_init E_ex [0, 0] 1 0 (U_zero\<lparr>u_p := (\<lambda>i. 1)\<rparr>)) = [0, 0] \<and>
   x (minres E_ex [0, 0] 1 0 (U_zero\<lparr>u_p := (\<lambda>i. 1)\<rparr>)) = [0, - (3 / 25)] \<and>
   x (minres E_ex [0, 0] 1 0 U_zero) = [3 / 25, 0]"
  by (simp add: run_ex run_ex_p_ones)
     (simp add: minres_init_fields E_ex_def vec_defs upt_2 replicate_2)

text \<open>C8. The claim: on return \<open>tol_error\<close> is \<open>sqrt (\<parallel>A x - b\<parallel>\<^sup>2 / \<parallel>b\<parallel>\<^sup>2)\<close> for the returned
  \<open>x\<close>. That holds when the bound is at least 1 (\<open>minres_error_after_an_iteration\<close>). With
  the bound 0 the body never assigns \<open>residualNorm2\<close>: for the operator \<open>[[3, 4], [4, -3]]\<close>,
  \<open>b = (1, 0)\<close>, guess \<open>(0, 0)\<close> and storage holding 0 the reported error is 0, while the
  relative residual of the returned \<open>x = (0, 0)\<close> is 1.\<close>
theorem error_for_zero_budget_example:
  "body_runs (minres E_ex [0, 0] 0 0 U_zero) = 0 \<and>
   \<not> div_by_zero (minres E_ex [0, 0] 0 0 U_zero) \<and>
   x (minres E_ex [0, 0] 0 0 U_zero) = [0, 0] \<and>
   tol_error (minres E_ex [0, 0] 0 0 U_zero) = 0 \<and>
   sqrt (squaredNorm (vsub (mat E_ex (x (minres E_ex [0, 0] 0 0 U_zero))) (rhs E_ex)) /
         squaredNorm (rhs E_ex)) = 1"
proof -
  have "minres_while E_ex (minres_init E_ex [0, 0] 0 0 U_zero) =
        minres_init E_ex [0, 0] 0 0 U_zero"
    by (rule minres_while_done) (simp add: minres_init_fields)
  then show ?thesis
    by (simp add: minres_def minres_return_fields init_ex) (simp add: E_ex_def vec_defs)
qed

text \<open>C9. With the bound 0 the loop body is never executed, \<open>x\<close> is returned unchanged with
  iteration count 0, and the reported error is the square root of whatever the storage of
  \<open>residualNorm2\<close> held, divided by \<open>\<parallel>b\<parallel>\<^sup>2\<close>: for every content \<open>g\<close> of that storage the
  error is \<open>sqrt (g / \<parallel>b\<parallel>\<^sup>2)\<close>, whatever the residual of \<open>x\<close> is.\<close>
theorem zero_budget_error_is_uninitialised:
  "body_runs (minres E x_in 0 tol U) = 0 \<and>
   x (minres E x_in 0 tol U) = x_in \<and>
   iters (minres E x_in 0 tol U) = 0 \<and>
   tol_error (minres E x_in 0 tol U) = sqrt (u_residualNorm2 U / squaredNorm (rhs E)) \<and>
   tol_error (minres E x_in 0 tol (U\<lparr>u_residualNorm2 := g\<rparr>)) = sqrt (g / squaredNorm (rhs E))"
proof -
  have "minres_while E (minres_init E x_in 0 tol V) = minres_init E x_in 0 tol V" for V
    by (rule minres_while_done) (simp add: minres_init_fields)
  then show ?thesis
    by (simp add: minres_def minres_return_fields minres_init_fields)
qed

text \<open>C10. \<^verbatim>\<open>_solve\<close> overwrites the destination with ones before it calls
  \<^verbatim>\<open>_solveWithGuess\<close>: for a destination with as many columns as \<open>b\<close> the call succeeds and
  column \<open>j\<close> of the result is what the kernel returns for column \<open>j\<close> of \<open>b\<close> from the
  initial guess \<open>(1, \<dots>, 1)\<close>.\<close>
theorem solve_starts_from_ones:
  assumes "length xm = length b" and "j < length b"
  shows "\<exists>S' xm'. MINRES_solve S b xm U = Some (S', xm') \<and>
           xm' ! j = x (minres (kernel_args S (b ! j)) (replicate (length (xm ! j)) 1)
                          (maxIterations S) (m_tolerance S) (U j))"
proof -
  define S2 where "S2 = S\<lparr>m_iterations := maxIterations S, m_error := m_tolerance S\<rparr>"
  have "\<forall>i\<in>set [0..<length b]. i < length (map setOnes xm)"
    using assms(1) by simp
  from column_loop_columns[OF distinct_upt this, of b U S2]
  obtain S' xm' where res: "column_loop b U [0..<length b] (S2, map setOnes xm) = Some (S', xm')"
    and cols: "\<forall>i<length (map setOnes xm). xm' ! i =
              (if i \<in> set [0..<length b]
               then x (minres (kernel_args S2 (b ! i)) (map setOnes xm ! i) (maxIterations S2)
                         (m_tolerance S2) (U i))
               else map setOnes xm ! i)"
    by blast
  have "xm' ! j = x (minres (kernel_args S2 (b ! j)) (setOnes (xm ! j)) (maxIterations S2)
                         (m_tolerance S2) (U j))"
    using cols assms by simp
  then have "xm' ! j = x (minres (kernel_args S (b ! j)) (replicate (length (xm ! j)) 1)
                          (maxIterations S) (m_tolerance S) (U j))"
    by (simp add: S2_def kernel_args_def setOnes_replicate)
  then show ?thesis
    using res by (simp add: MINRES_solve_def MINRES_solveWithGuess_def Let_def S2_def)
qed

theorem solve_starts_from_ones_witness:
  "length [[5, 5 :: real]] = length [[1, 0 :: real]] \<and> (0::nat) < length [[1, 0 :: real]] \<and>
   (\<exists>S' xm'. MINRES_solve S_ex [[1, 0]] [[5, 5]] (\<lambda>j. U_zero) = Some (S', xm') \<and>
      xm' ! 0 = x (minres (kernel_args S_ex ([[1, 0]] ! 0)) (replicate (length ([[5, 5 :: real]] ! 0)) 1)
                     (maxIterations S_ex) (m_tolerance S_ex) U_zero))"
proof -
  have h1: "length [[5, 5 :: real]] = length [[1, 0 :: real]]" by simp
  have h2: "(0::nat) < length [[1, 0 :: real]]" by simp
  from solve_starts_from_ones[OF h1 h2, of S_ex "\<lambda>j. U_zero"] h1 h2
  show ?thesis by blast
qed

end
